theory Spec2Isabelle
  imports Complex_Main
begin

section \<open>Python values and exceptions\<close>

text \<open>
  The integration (FeedTAXII2.py) handles dynamically typed values: command arguments,
  integration parameters, cursor entries and indicator fields, all of which reach it
  decoded from JSON. They are modelled by the values JSON decoding produces: \<open>None\<close>,
  booleans, integers, floats (a finite value, an infinity or not-a-number), strings,
  lists and dictionaries. A \<open>string\<close> holds the UTF-8 bytes of the Python string.
\<close>

datatype pyfloat = Finite rat | PosInf | NegInf | NaN

datatype pyval =
    PNone
  | PBool bool
  | PInt int
  | PFloat pyfloat
  | PStr string
  | PList "pyval list"
  | PDict "(string \<times> pyval) list"

text \<open>
  The exceptions that can travel through the integration. \<open>OtherException\<close> stands for
  any exception class the collaborators (the TAXII2 client, CommonServerPython) raise
  that the integration does not name.
\<close>

datatype py_exception =
    TypeError
  | ValueError
  | OverflowError
  | KeyError
  | AttributeError
  | SSLError
  | DemistoException string
  | OtherException string

text \<open>Python truthiness (\<open>if x:\<close>, \<open>x or y\<close>).\<close>

fun truthy :: "pyval \<Rightarrow> bool" where
  "truthy PNone = False"
| "truthy (PBool b) = b"
| "truthy (PInt n) = (n \<noteq> 0)"
| "truthy (PFloat f) = (f \<noteq> Finite 0)"
| "truthy (PStr s) = (s \<noteq> [])"
| "truthy (PList xs) = (xs \<noteq> [])"
| "truthy (PDict kvs) = (kvs \<noteq> [])"

text \<open>\<open>d.get(k)\<close> on a dictionary with string keys: \<open>None\<close> for a missing key.\<close>

definition dict_get :: "(string \<times> pyval) list \<Rightarrow> string \<Rightarrow> pyval" where
  "dict_get d k = (case map_of d k of None \<Rightarrow> PNone | Some v \<Rightarrow> v)"

section \<open>The client, the collaborators and the fetch state\<close>

text \<open>
  An indicator is a dictionary (\<open>value\<close>, \<open>type\<close>, \<open>rawJSON\<close>, ...). A collection object
  carries an \<open>id\<close> and a \<open>title\<close>. Of the \<open>Taxii2FeedClient\<close> object the integration
  reads and writes three attributes; \<open>internals\<close> stands for everything else the client
  holds (its connection, the server behind it).
\<close>

type_synonym indicator = "(string \<times> pyval) list"

type_synonym cursor_map = "string \<rightharpoonup> pyval"

record collection =
  coll_id :: string
  title :: string

record 'x client =
  collection_to_fetch :: "collection option"
  collections :: "collection list option"
  latest_fetched_indicator_created :: pyval
  internals :: 'x

text \<open>
  The names FeedTAXII2.py takes from TAXII2ApiModule and CommonServerPython, whose code
  is not part of the verified file. Every command takes them as the parameter \<open>E\<close>:
  \<^item> \<open>ERR_NO_COLL\<close>, the message constant;
  \<^item> \<open>parse_date_range\<close> at \<open>date_format=TAXII_TIME_FORMAT\<close>, returning a pair of
    formatted times or raising;
  \<^item> \<open>tableToMarkdown(name, t, headers)\<close> and \<open>batch(iterable, batch_size)\<close>;
  \<^item> \<open>client.build_iterator(limit, added_after)\<close>, which returns the fetched
    indicators and may change the client, or raises.
  With them come the facts of the Python interpreter that vary with its version: which
  code points from 127 on its Unicode database holds to be spaces, which to be decimal
  digits and of what value, and whether \<open>int\<close> converts a literal of a given number of
  digits (later versions cap it).
\<close>

record 'x env =
  ERR_NO_COLL :: string
  unicode_space :: "nat \<Rightarrow> bool"
  unicode_decimal :: "nat \<Rightarrow> nat option"
  str_digits_ok :: "nat \<Rightarrow> bool"
  parse_date_range :: "pyval \<Rightarrow> py_exception + string \<times> string"
  tableToMarkdown :: "string \<Rightarrow> (string \<times> pyval) list list \<Rightarrow> string list \<Rightarrow> string"
  batch :: "indicator list \<Rightarrow> nat \<Rightarrow> indicator list list"
  build_iterator :: "'x client \<Rightarrow> int \<Rightarrow> pyval \<Rightarrow> py_exception + indicator list \<times> 'x client"

text \<open>
  The variables of a fetch cycle. \<open>calls\<close> is not a variable of the source: it lists, in
  order, the arguments of every \<open>client.build_iterator\<close> call made so far (the
  collection the client was pointed at, the limit and \<open>added_after\<close>), so that what is
  passed to the client can be stated. An exception carries the calls made before it.
\<close>

type_synonym call = "collection option \<times> int \<times> pyval"

record 'x fetch_state =
  fs_client :: "'x client"
  fs_limit :: int
  fs_last_run_ctx :: cursor_map
  fs_indicators :: "indicator list"
  fs_calls :: "call list"

section \<open>The builtin \<open>int(x)\<close>\<close>

text \<open>
  On a string, \<open>int\<close> first maps every code point to ASCII: a string that is all ASCII
  is taken as it is; otherwise a code point below 127 is kept, a Unicode space becomes
  a blank and a Unicode decimal digit becomes the ASCII digit of its value, and any
  other code point makes the literal invalid. The result must be optional whitespace,
  an optional sign, decimal digits with single underscores between digits, and
  optional whitespace, with a number of digits the interpreter converts; anything else
  is a \<open>ValueError\<close>.
\<close>

definition continuation :: "nat \<Rightarrow> bool" where
  "continuation b = (128 \<le> b \<and> b < 192)"

definition sequence_length :: "nat \<Rightarrow> nat" where
  "sequence_length b =
     (if b < 128 then 1
      else if 192 \<le> b \<and> b < 224 then 2
      else if 224 \<le> b \<and> b < 240 then 3
      else if 240 \<le> b \<and> b < 248 then 4
      else 0)"

definition lead_bits :: "nat \<Rightarrow> nat" where
  "lead_bits b =
     (if b < 128 then b
      else if b < 224 then b - 192
      else if b < 240 then b - 224
      else b - 240)"

text \<open>The code points of a string, from its UTF-8 bytes (\<open>None\<close> when they are not UTF-8).\<close>

function utf8_decode :: "nat list \<Rightarrow> nat list option" where
  "utf8_decode [] = Some []"
| "utf8_decode (b # rest) =
     (if sequence_length b = 0 \<or> length rest < sequence_length b - 1 \<or>
         \<not> list_all continuation (take (sequence_length b - 1) rest)
      then None
      else map_option
             ((#) (foldl (\<lambda>a c. a * 64 + (c - 128)) (lead_bits b)
                     (take (sequence_length b - 1) rest)))
             (utf8_decode (drop (sequence_length b - 1) rest)))"
  by pat_completeness auto
termination
  by (relation "measure length") auto

definition code_points :: "string \<Rightarrow> nat list option" where
  "code_points s = utf8_decode (map of_char s)"

definition to_ascii :: "'x env \<Rightarrow> nat \<Rightarrow> nat option" where
  "to_ascii E c =
     (if c < 127 then Some c
      else if unicode_space E c then Some 32
      else map_option (\<lambda>d. 48 + d) (unicode_decimal E c))"

definition transform_decimal_and_space :: "'x env \<Rightarrow> nat list \<Rightarrow> nat list option" where
  "transform_decimal_and_space E cs =
     (if list_all (\<lambda>c. c < 128) cs then Some cs else those (map (to_ascii E) cs))"

text \<open>ASCII whitespace: blank, tab, line feed, vertical tab, form feed, carriage return.\<close>

definition is_space :: "nat \<Rightarrow> bool" where
  "is_space c = (c = 32 \<or> (9 \<le> c \<and> c \<le> 13))"

definition is_digit :: "nat \<Rightarrow> bool" where
  "is_digit c = (48 \<le> c \<and> c \<le> 57)"

text \<open>The digits after the first one; 95 is the underscore.\<close>

fun parse_digits :: "nat \<Rightarrow> nat list \<Rightarrow> nat option" where
  "parse_digits acc [] = Some acc"
| "parse_digits acc [c] = (if is_digit c then Some (10 * acc + (c - 48)) else None)"
| "parse_digits acc (c # d # ds) =
     (if is_digit c then parse_digits (10 * acc + (c - 48)) (d # ds)
      else if c = 95 \<and> is_digit d then parse_digits (10 * acc + (d - 48)) ds
      else None)"

definition parse_unsigned :: "'x env \<Rightarrow> nat list \<Rightarrow> nat option" where
  "parse_unsigned E s =
     (case s of
        [] \<Rightarrow> None
      | d # ds \<Rightarrow>
          if is_digit d \<and> str_digits_ok E (length (filter is_digit s))
          then parse_digits (d - 48) ds
          else None)"

definition strip_spaces :: "nat list \<Rightarrow> nat list" where
  "strip_spaces s = rev (dropWhile is_space (rev (dropWhile is_space s)))"

text \<open>45 is the minus sign, 43 the plus sign.\<close>

definition int_of_str :: "'x env \<Rightarrow> string \<Rightarrow> int option" where
  "int_of_str E s =
     (case code_points s of
        None \<Rightarrow> None
      | Some cs \<Rightarrow>
          (case transform_decimal_and_space E cs of
             None \<Rightarrow> None
           | Some as \<Rightarrow>
               (case strip_spaces as of
                  [] \<Rightarrow> None
                | c # body \<Rightarrow>
                    if c = 45 then map_option (\<lambda>n. - int n) (parse_unsigned E body)
                    else if c = 43 then map_option int (parse_unsigned E body)
                    else map_option int (parse_unsigned E (c # body)))))"

text \<open>
  On a float, \<open>int\<close> truncates towards zero; an infinity is an \<open>OverflowError\<close>,
  not-a-number a \<open>ValueError\<close>. On \<open>None\<close>, a list or a dictionary it raises
  \<open>TypeError\<close>; a boolean is 0 or 1; an integer is itself.
\<close>

definition trunc_rat :: "rat \<Rightarrow> int" where
  "trunc_rat x = (if x < 0 then \<lceil>x\<rceil> else \<lfloor>x\<rfloor>)"

fun py_int :: "'x env \<Rightarrow> pyval \<Rightarrow> py_exception + int" where
  "py_int E PNone = Inl TypeError"
| "py_int E (PBool b) = Inr (if b then 1 else 0)"
| "py_int E (PInt n) = Inr n"
| "py_int E (PFloat (Finite x)) = Inr (trunc_rat x)"
| "py_int E (PFloat PosInf) = Inl OverflowError"
| "py_int E (PFloat NegInf) = Inl OverflowError"
| "py_int E (PFloat NaN) = Inl ValueError"
| "py_int E (PStr s) = (case int_of_str E s of None \<Rightarrow> Inl ValueError | Some n \<Rightarrow> Inr n)"
| "py_int E (PList xs) = Inl TypeError"
| "py_int E (PDict kvs) = Inl TypeError"

section \<open>Helper functions\<close>

text \<open>
  \<open>try_parse_integer(int_to_parse, err_msg)\<close>: \<open>int(int_to_parse)\<close>, with \<open>TypeError\<close>
  and \<open>ValueError\<close> (and only those) turned into \<open>DemistoException(err_msg)\<close>.
\<close>

definition default_err_msg :: string where
  "default_err_msg = ''Please provide a valid limit (positive integer)''"

definition try_parse_integer :: "'x env \<Rightarrow> pyval \<Rightarrow> string \<Rightarrow> py_exception + int" where
  "try_parse_integer E int_to_parse err_msg =
     (case py_int E int_to_parse of
        Inl TypeError \<Rightarrow> Inl (DemistoException err_msg)
      | Inl ValueError \<Rightarrow> Inl (DemistoException err_msg)
      | Inl e \<Rightarrow> Inl e
      | Inr res \<Rightarrow> Inr res)"

section \<open>Command functions\<close>

subsection \<open>fetch_indicators_command\<close>

text \<open>
  The loop over \<open>client.collections\<close> (fetch all collections); the list iterated is
  the one read when the loop starts. The \<open>break\<close> on an exhausted limit leaves the loop
  before the cursor of the current collection is written.
\<close>

fun fetch_all_collections ::
  "'x env \<Rightarrow> pyval \<Rightarrow> collection list \<Rightarrow> 'x fetch_state \<Rightarrow>
   (py_exception \<times> call list) + 'x fetch_state" where
  "fetch_all_collections E initial_interval [] s = Inr s"
| "fetch_all_collections E initial_interval (collection # rest) s =
     (let client = (fs_client s)\<lparr>collection_to_fetch := Some collection\<rparr>;
          added_after = (case fs_last_run_ctx s (coll_id collection) of
                           Some v \<Rightarrow> v
                         | None \<Rightarrow> initial_interval);
          calls = fs_calls s @ [(Some collection, fs_limit s, added_after)]
      in case build_iterator E client (fs_limit s) added_after of
           Inl e \<Rightarrow> Inl (e, calls)
         | Inr (fetched_iocs, client') \<Rightarrow>
             let indicators = fs_indicators s @ fetched_iocs;
                 limit = (if fs_limit s \<ge> 0 then fs_limit s - int (length fetched_iocs)
                          else fs_limit s)
             in if fs_limit s \<ge> 0 \<and> limit \<le> 0
                then Inr \<lparr>fs_client = client', fs_limit = limit,
                          fs_last_run_ctx = fs_last_run_ctx s,
                          fs_indicators = indicators, fs_calls = calls\<rparr>
                else fetch_all_collections E initial_interval rest
                       \<lparr>fs_client = client', fs_limit = limit,
                        fs_last_run_ctx = (fs_last_run_ctx s)
                          (coll_id collection \<mapsto> latest_fetched_indicator_created client'),
                        fs_indicators = indicators, fs_calls = calls\<rparr>)"

text \<open>
  The whole command, with everything it leaves behind (the client, the remaining limit
  and the calls made). In the single-collection branch the key of the cursor written is
  \<open>client.collection_to_fetch.id\<close> read after \<open>build_iterator\<close> has returned.
\<close>

definition fetch_indicators_run ::
  "'x env \<Rightarrow> 'x client \<Rightarrow> pyval \<Rightarrow> int \<Rightarrow> cursor_map \<Rightarrow>
   (py_exception \<times> call list) + 'x fetch_state" where
  "fetch_indicators_run E client initial_interval limit last_run_ctx =
     (case parse_date_range E initial_interval of
        Inl e \<Rightarrow> Inl (e, [])
      | Inr (start, _) \<Rightarrow>
          (case collection_to_fetch client of
             None \<Rightarrow>
               (case collections client of
                  None \<Rightarrow> Inl (DemistoException (ERR_NO_COLL E), [])
                | Some cs \<Rightarrow>
                    fetch_all_collections E (PStr start) cs
                      \<lparr>fs_client = client, fs_limit = limit, fs_last_run_ctx = last_run_ctx,
                       fs_indicators = [], fs_calls = []\<rparr>)
           | Some c \<Rightarrow>
               (let added_after = (case last_run_ctx (coll_id c) of
                                     Some v \<Rightarrow> v
                                   | None \<Rightarrow> PStr start);
                    calls = [(Some c, limit, added_after)]
                in case build_iterator E client limit added_after of
                     Inl e \<Rightarrow> Inl (e, calls)
                   | Inr (indicators, client') \<Rightarrow>
                       (case collection_to_fetch client' of
                          None \<Rightarrow> Inl (AttributeError, calls)
                        | Some c' \<Rightarrow>
                            Inr \<lparr>fs_client = client', fs_limit = limit,
                                 fs_last_run_ctx = last_run_ctx
                                   (coll_id c' \<mapsto>
                                      (if truthy (latest_fetched_indicator_created client')
                                       then latest_fetched_indicator_created client'
                                       else added_after)),
                                 fs_indicators = indicators, fs_calls = calls\<rparr>))))"

text \<open>What the Python function returns: \<open>(indicators, last_run_ctx)\<close>, or the exception.\<close>

definition fetch_indicators_command ::
  "'x env \<Rightarrow> 'x client \<Rightarrow> pyval \<Rightarrow> int \<Rightarrow> cursor_map \<Rightarrow>
   py_exception + indicator list \<times> cursor_map" where
  "fetch_indicators_command E client initial_interval limit last_run_ctx =
     (case fetch_indicators_run E client initial_interval limit last_run_ctx of
        Inl (e, calls) \<Rightarrow> Inl e
      | Inr s \<Rightarrow> Inr (fs_indicators s, fs_last_run_ctx s))"

text \<open>The \<open>build_iterator\<close> calls of a fetch cycle, whether it returned or raised.\<close>

definition calls_of :: "(py_exception \<times> call list) + 'x fetch_state \<Rightarrow> call list" where
  "calls_of r = (case r of Inl (e, calls) \<Rightarrow> calls | Inr s \<Rightarrow> fs_calls s)"

subsection \<open>The host\<close>

text \<open>
  What the integration can leave in the host (the \<open>demisto\<close> object): the integration
  context, where the cursor mapping is persisted; the entries it sends back
  (\<open>demisto.results\<close>, \<open>return_results\<close>, \<open>return_error\<close>); and the indicator batches
  handed to \<open>demisto.createIndicators\<close>.
\<close>

record command_results =
  outputs_prefix :: string
  outputs_key_field :: string
  outputs :: "(string \<times> pyval) list list"
  readable_output :: string

datatype command_output =
    RetNone
  | RetStr string
  | RetCommandResults command_results

datatype host_entry =
    Results pyval
  | ReturnResults command_output
  | ReturnError string
  | ReturnFailure string py_exception

record demisto =
  integration_context :: cursor_map
  entries :: "host_entry list"
  created_indicators :: "indicator list list"

definition CONTEXT_PREFIX :: string where
  "CONTEXT_PREFIX = ''TAXII2''"

text \<open>The decimal digits of a length, as an f-string prints it.\<close>

fun str_nat :: "nat \<Rightarrow> string" where
  "str_nat n =
     (if n < 10 then [''0123456789'' ! n]
      else str_nat (n div 10) @ [''0123456789'' ! (n mod 10)])"

declare str_nat.simps [simp del]

subsection \<open>module_test_command\<close>

definition module_test_command :: "'x client \<Rightarrow> demisto \<Rightarrow> demisto" where
  "module_test_command client d =
     (if (case collections client of None \<Rightarrow> False | Some cs \<Rightarrow> cs \<noteq> [])
      then d\<lparr>entries := entries d @ [Results (PStr ''ok'')]\<rparr>
      else d\<lparr>entries := entries d @ [ReturnError ''Could not connect to server'']\<rparr>)"

subsection \<open>get_indicators_command\<close>

text \<open>The loop over \<open>client.collections\<close> of the listing command: no cursor is involved.\<close>

fun get_all_collections ::
  "'x env \<Rightarrow> pyval \<Rightarrow> collection list \<Rightarrow> 'x client \<Rightarrow> int \<Rightarrow> indicator list \<Rightarrow>
   py_exception + indicator list \<times> 'x client" where
  "get_all_collections E added_after [] client limit indicators = Inr (indicators, client)"
| "get_all_collections E added_after (collection # rest) client limit indicators =
     (case build_iterator E (client\<lparr>collection_to_fetch := Some collection\<rparr>) limit added_after of
        Inl e \<Rightarrow> Inl e
      | Inr (fetched_iocs, client') \<Rightarrow>
          if limit \<ge> 0 \<and> limit - int (length fetched_iocs) \<le> 0
          then Inr (indicators @ fetched_iocs, client')
          else get_all_collections E added_after rest client'
                 (if limit \<ge> 0 then limit - int (length fetched_iocs) else limit)
                 (indicators @ fetched_iocs))"

text \<open>The indicators the listing command fetches (the branch on \<open>collection_to_fetch\<close>).\<close>

definition get_indicators_fetched ::
  "'x env \<Rightarrow> 'x client \<Rightarrow> int \<Rightarrow> pyval \<Rightarrow> py_exception + indicator list" where
  "get_indicators_fetched E client limit added_after =
     (case collection_to_fetch client of
        None \<Rightarrow>
          (case collections client of
             None \<Rightarrow> Inl (DemistoException (ERR_NO_COLL E))
           | Some cs \<Rightarrow>
               (case get_all_collections E added_after cs client limit [] of
                  Inl e \<Rightarrow> Inl e
                | Inr (indicators, client') \<Rightarrow> Inr indicators))
      | Some c \<Rightarrow>
          (case build_iterator E client limit added_after of
             Inl e \<Rightarrow> Inl e
           | Inr (indicators, client') \<Rightarrow> Inr indicators))"

text \<open>\<open>if added_after: added_after, _ = parse_date_range(added_after, ...)\<close>\<close>

definition parse_added_after :: "'x env \<Rightarrow> pyval \<Rightarrow> py_exception + pyval" where
  "parse_added_after E added_after =
     (if truthy added_after
      then (case parse_date_range E added_after of
              Inl e \<Rightarrow> Inl e
            | Inr (start, _) \<Rightarrow> Inr (PStr start))
      else Inr added_after)"

definition get_indicators_command ::
  "'x env \<Rightarrow> 'x client \<Rightarrow> pyval \<Rightarrow> pyval \<Rightarrow> pyval \<Rightarrow> demisto \<Rightarrow>
   py_exception + command_output \<times> demisto" where
  "get_indicators_command E client raw limit added_after d =
     (case try_parse_integer E limit default_err_msg of
        Inl e \<Rightarrow> Inl e
      | Inr limit \<Rightarrow>
          (case parse_added_after E added_after of
             Inl e \<Rightarrow> Inl e
           | Inr added_after \<Rightarrow>
               (case get_indicators_fetched E client limit added_after of
                  Inl e \<Rightarrow> Inl e
                | Inr indicators \<Rightarrow>
                    if raw = PStr ''true''
                    then Inr (RetNone,
                           d\<lparr>entries := entries d @
                              [Results (PDict [(''indicators'',
                                 PList (map (\<lambda>x. dict_get x ''rawJSON'') indicators))])]\<rparr>)
                    else
                      (let md = ''Found '' @ str_nat (length indicators) @ '' results:\<newline>'' @
                                tableToMarkdown E '''' indicators [''value'', ''type'']
                       in if indicators \<noteq> []
                          then Inr (RetCommandResults
                                 \<lparr>outputs_prefix = CONTEXT_PREFIX @ ''.Indicators'',
                                  outputs_key_field = ''value'',
                                  outputs = indicators,
                                  readable_output = md\<rparr>, d)
                          else Inr (RetStr md, d)))))"

subsection \<open>get_collections_command\<close>

definition get_collections_command ::
  "'x env \<Rightarrow> 'x client \<Rightarrow> py_exception + command_output" where
  "get_collections_command E client =
     (case collections client of
        None \<Rightarrow> Inl TypeError
      | Some cs \<Rightarrow>
          (let colls = map (\<lambda>c. [(''Name'', PStr (title c)), (''ID'', PStr (coll_id c))]) cs;
               md = tableToMarkdown E ''TAXII2 Server Collections:'' colls [''Name'', ''ID'']
           in Inr (RetCommandResults
                \<lparr>outputs_prefix = CONTEXT_PREFIX @ ''.Collections'',
                 outputs_key_field = ''ID'',
                 outputs = colls,
                 readable_output = md\<rparr>)))"

subsection \<open>reset_fetch_command\<close>

definition reset_message :: string where
  "reset_message =
     ''Fetch was reset successfully. Your next indicator fetch will collect indicators from '' @
     ''the configured '' @ [CHR 0x22] @ ''First Fetch Time'' @ [CHR 0x22]"

definition reset_fetch_command :: "'x client \<Rightarrow> demisto \<Rightarrow> command_output \<times> demisto" where
  "reset_fetch_command client d = (RetStr reset_message, d\<lparr>integration_context := Map.empty\<rparr>)"

subsection \<open>main\<close>

text \<open>
  \<open>main\<close> from the point where the client has been constructed and initialised: the
  dispatch on the command name, and the handler that turns any exception into
  \<open>return_error\<close>. \<open>f(client, **args)\<close> raises \<open>TypeError\<close> when \<open>args\<close> has a key that is
  not a parameter of \<open>f\<close>; a missing key takes the parameter's default.
\<close>

definition keywords_ok :: "(string \<times> pyval) list \<Rightarrow> string list \<Rightarrow> bool" where
  "keywords_ok args names = list_all (\<lambda>kv. fst kv \<in> set names) args"

definition arg_or :: "(string \<times> pyval) list \<Rightarrow> string \<Rightarrow> pyval \<Rightarrow> pyval" where
  "arg_or args k dflt = (case map_of args k of None \<Rightarrow> dflt | Some v \<Rightarrow> v)"

definition return_results :: "command_output \<Rightarrow> demisto \<Rightarrow> demisto" where
  "return_results r d = d\<lparr>entries := entries d @ [ReturnResults r]\<rparr>"

definition ssl_message :: string where
  "ssl_message =
     ''Encountered an HTTPS certificate error. This error can be ignored by enabling '' @
     [CHR 0x22] @ ''Trust any certificate (not secure)'' @ [CHR 0x22] @
     '' in the instance configuration.''"

definition main_try ::
  "'x env \<Rightarrow> 'x client \<Rightarrow> (string \<times> pyval) list \<Rightarrow> (string \<times> pyval) list \<Rightarrow> string \<Rightarrow>
   demisto \<Rightarrow> py_exception + demisto" where
  "main_try E client params args command d =
     (if command = ''test-module'' then Inr (module_test_command client d)
      else if command = ''fetch-indicators'' then
        (let initial_interval = dict_get params ''initial_interval'' in
         case try_parse_integer E
                (if truthy (dict_get params ''limit'') then dict_get params ''limit''
                 else PInt (- 1)) default_err_msg of
           Inl e \<Rightarrow> Inl e
         | Inr limit \<Rightarrow>
             (case fetch_indicators_command E client initial_interval limit
                     (integration_context d) of
                Inl e \<Rightarrow> Inl e
              | Inr (indicators, integration_ctx) \<Rightarrow>
                  Inr (d\<lparr>created_indicators := created_indicators d @ batch E indicators 2000,
                         integration_context := integration_ctx\<rparr>)))
      else if command = ''taxii2-reset-fetch-indicators'' then
        (if keywords_ok args []
         then (case reset_fetch_command client d of (r, d') \<Rightarrow> Inr (return_results r d'))
         else Inl TypeError)
      else if command = ''taxii2-get-indicators'' then
        (if keywords_ok args [''raw'', ''limit'', ''added_after'']
         then (case get_indicators_command E client
                      (arg_or args ''raw'' (PStr ''false''))
                      (arg_or args ''limit'' (PInt 10))
                      (arg_or args ''added_after'' PNone) d of
                 Inl e \<Rightarrow> Inl e
               | Inr (r, d') \<Rightarrow> Inr (return_results r d'))
         else Inl TypeError)
      else if command = ''taxii2-get-collections'' then
        (if keywords_ok args []
         then (case get_collections_command E client of
                 Inl e \<Rightarrow> Inl e
               | Inr r \<Rightarrow> Inr (return_results r d))
         else Inl TypeError)
      else Inl KeyError)"

definition main ::
  "'x env \<Rightarrow> 'x client \<Rightarrow> (string \<times> pyval) list \<Rightarrow> (string \<times> pyval) list \<Rightarrow> string \<Rightarrow>
   demisto \<Rightarrow> demisto" where
  "main E client params args command d =
     (case main_try E client params args command d of
        Inl e \<Rightarrow>
          d\<lparr>entries := entries d @
             [if e = SSLError then ReturnError ssl_message else ReturnFailure command e]\<rparr>
      | Inr d' \<Rightarrow> d')"

section \<open>A simulated server for concrete runs\<close>

text \<open>
  Concrete runs need concrete collaborators. The simulated client keeps, in \<open>internals\<close>,
  the indicators the server holds for each collection id. Its \<open>build_iterator\<close> returns
  those of the current collection created after \<open>added_after\<close>, at most \<open>limit\<close> of them
  when the limit is not negative, and sets \<open>latest_fetched_indicator_created\<close> to the
  latest creation time among the indicators just fetched (\<open>None\<close> when there are none).
  Times are strings in one fixed format, compared as Python compares strings.
\<close>

fun str_less :: "string \<Rightarrow> string \<Rightarrow> bool" where
  "str_less [] [] = False"
| "str_less [] (y # ys) = True"
| "str_less (x # xs) [] = False"
| "str_less (x # xs) (y # ys) =
     ((of_char x :: nat) < of_char y \<or> (x = y \<and> str_less xs ys))"

definition later :: "string \<Rightarrow> string \<Rightarrow> string" where
  "later a b = (if str_less a b then b else a)"

definition created_of :: "indicator \<Rightarrow> string" where
  "created_of x =
     (case dict_get x ''rawJSON'' of
        PDict r \<Rightarrow> (case dict_get r ''created'' of PStr t \<Rightarrow> t | _ \<Rightarrow> [])
      | _ \<Rightarrow> [])"

definition latest_created :: "indicator list \<Rightarrow> pyval" where
  "latest_created xs = (if xs = [] then PNone else PStr (foldr later (map created_of xs) []))"

type_synonym sim_server = "(string \<times> indicator list) list"

definition sim_build_iterator ::
  "sim_server client \<Rightarrow> int \<Rightarrow> pyval \<Rightarrow> py_exception + indicator list \<times> sim_server client" where
  "sim_build_iterator client limit added_after =
     (case collection_to_fetch client of
        None \<Rightarrow> Inl (OtherException ''no collection to fetch from'')
      | Some c \<Rightarrow>
          (let stored = (case map_of (internals client) (coll_id c) of
                           None \<Rightarrow> []
                         | Some xs \<Rightarrow> xs);
               newer = filter (\<lambda>x. case added_after of
                                      PStr t \<Rightarrow> str_less t (created_of x)
                                    | _ \<Rightarrow> True) stored;
               fetched = (if limit < 0 then newer else take (nat limit) newer)
           in Inr (fetched,
                client\<lparr>latest_fetched_indicator_created := latest_created fetched\<rparr>)))"

text \<open>The simulated clock: the one interval it knows, \<open>1 day\<close>, starts on 2024-06-01.\<close>

definition sim_parse_date_range :: "pyval \<Rightarrow> py_exception + string \<times> string" where
  "sim_parse_date_range v =
     (if v = PStr ''1 day''
      then Inr (''2024-06-01T00:00:00Z'', ''2024-06-02T00:00:00Z'')
      else Inl (OtherException ''invalid date range''))"

text \<open>
  The simulated interpreter knows the Unicode spaces, the Arabic-Indic and the fullwidth
  digits, and converts literals of up to 4300 digits.
\<close>

definition sim_env :: "sim_server env" where
  "sim_env =
     \<lparr>ERR_NO_COLL = ''No collection is available for this user'',
      unicode_space = (\<lambda>c. c \<in> set [0x85, 0xA0, 0x1680, 0x2000, 0x2001, 0x2002, 0x2003,
         0x2004, 0x2005, 0x2006, 0x2007, 0x2008, 0x2009, 0x200A, 0x2028, 0x2029, 0x202F,
         0x205F, 0x3000]),
      unicode_decimal = (\<lambda>c. if 0x660 \<le> c \<and> c \<le> 0x669 then Some (c - 0x660)
                            else if 0xFF10 \<le> c \<and> c \<le> 0xFF19 then Some (c - 0xFF10)
                            else None),
      str_digits_ok = (\<lambda>n. n \<le> 4300),
      parse_date_range = sim_parse_date_range,
      tableToMarkdown = (\<lambda>name t headers. name @ ''|'' @ concat headers @ ''|''),
      batch = (\<lambda>xs n. if xs = [] then [] else [xs]),
      build_iterator = sim_build_iterator\<rparr>"

definition sim_indicator :: "string \<Rightarrow> string \<Rightarrow> indicator" where
  "sim_indicator v t =
     [(''value'', PStr v), (''type'', PStr ''IP''),
      (''rawJSON'', PDict [(''id'', PStr v), (''created'', PStr t)])]"

definition col1 :: collection where
  "col1 = \<lparr>coll_id = ''col-1'', title = ''First''\<rparr>"

definition col2 :: collection where
  "col2 = \<lparr>coll_id = ''col-2'', title = ''Second''\<rparr>"

definition ind_a :: indicator where
  "ind_a = sim_indicator ''1.1.1.1'' ''2024-01-01T12:00:00Z''"

definition ind_b :: indicator where
  "ind_b = sim_indicator ''1.1.1.2'' ''2024-01-02T00:00:00Z''"

definition ind_c :: indicator where
  "ind_c = sim_indicator ''1.1.1.3'' ''2024-01-01T18:00:00Z''"

definition ind_d :: indicator where
  "ind_d = sim_indicator ''2.2.2.1'' ''2024-03-01T00:00:00Z''"

text \<open>
  The server: three indicators in \<open>col-1\<close>, the latest created on 2024-01-02, and one
  in \<open>col-2\<close>, created before the simulated initial interval.
\<close>

definition sim_server0 :: sim_server where
  "sim_server0 = [(''col-1'', [ind_a, ind_b, ind_c]), (''col-2'', [ind_d])]"

text \<open>A freshly initialised client, in fetch-all mode and pinned to one collection.\<close>

definition sim_client_all :: "sim_server client" where
  "sim_client_all =
     \<lparr>collection_to_fetch = None, collections = Some [col1, col2],
      latest_fetched_indicator_created = PNone, internals = sim_server0\<rparr>"

definition sim_client_col1 :: "sim_server client" where
  "sim_client_col1 =
     \<lparr>collection_to_fetch = Some col1, collections = Some [col1, col2],
      latest_fetched_indicator_created = PNone, internals = sim_server0\<rparr>"

text \<open>A client for which no collection could be resolved.\<close>

definition sim_client_none :: "sim_server client" where
  "sim_client_none =
     \<lparr>collection_to_fetch = None, collections = None,
      latest_fetched_indicator_created = PNone, internals = sim_server0\<rparr>"

text \<open>The persisted cursor mapping of the runs below: one entry, for \<open>col-1\<close>.\<close>

definition cursors0 :: cursor_map where
  "cursors0 = [''col-1'' \<mapsto> PStr ''2024-01-01T00:00:00Z'']"

definition host1 :: demisto where
  "host1 = \<lparr>integration_context = cursors0, entries = [], created_indicators = []\<rparr>"

text \<open>A client that resolved an empty list of collections.\<close>

definition sim_client_empty :: "sim_server client" where
  "sim_client_empty =
     \<lparr>collection_to_fetch = None, collections = Some [],
      latest_fetched_indicator_created = PNone, internals = sim_server0\<rparr>"

text \<open>
  A client whose list names the collection \<open>col-1\<close> twice, on a server holding one
  indicator created after the simulated initial interval.
\<close>

definition col1_again :: collection where
  "col1_again = \<lparr>coll_id = ''col-1'', title = ''First, again''\<rparr>"

definition ind_e :: indicator where
  "ind_e = sim_indicator ''1.1.1.9'' ''2024-07-01T00:00:00Z''"

definition sim_client_twice :: "sim_server client" where
  "sim_client_twice =
     \<lparr>collection_to_fetch = None, collections = Some [col1, col1_again],
      latest_fetched_indicator_created = PNone, internals = [(''col-1'', [ind_e])]\<rparr>"

section \<open>Notions used to state the properties\<close>

text \<open>
  The collections a fetch cycle is to process: the pinned collection, or every
  collection the client knows.
\<close>

definition targets :: "'x client \<Rightarrow> collection list" where
  "targets client =
     (case collection_to_fetch client of
        Some c \<Rightarrow> [c]
      | None \<Rightarrow> (case collections client of None \<Rightarrow> [] | Some cs \<Rightarrow> cs))"

text \<open>
  Of a \<open>build_iterator\<close> call, the collection and the \<open>added_after\<close> bound; and what the
  source computes for a collection: its entry in the cursor mapping when there is one,
  the initial interval otherwise.
\<close>

definition call_target :: "call \<Rightarrow> collection option \<times> pyval" where
  "call_target k = (fst k, snd (snd k))"

definition cursor_or :: "cursor_map \<Rightarrow> pyval \<Rightarrow> collection \<Rightarrow> collection option \<times> pyval" where
  "cursor_or ctx initial c =
     (Some c, case ctx (coll_id c) of Some v \<Rightarrow> v | None \<Rightarrow> initial)"

section \<open>The limit parser\<close>

lemmas int_defs =
  int_of_str_def code_points_def transform_decimal_and_space_def to_ascii_def strip_spaces_def
  is_space_def is_digit_def parse_unsigned_def sequence_length_def lead_bits_def
  continuation_def trunc_rat_def

lemma py_int_cases:
  "(\<exists>n. py_int E x = Inr n) \<or> py_int E x = Inl TypeError \<or> py_int E x = Inl ValueError \<or>
   ((x = PFloat PosInf \<or> x = PFloat NegInf) \<and> py_int E x = Inl OverflowError)"
proof (cases x)
  case (PFloat f)
  then show ?thesis by (cases f) simp_all
qed (simp_all split: option.splits)

text \<open>
  Every outcome of \<open>try_parse_integer\<close>: the integer that \<open>int\<close> returns; or
  \<open>DemistoException\<close> with the given message, when \<open>int\<close> raises \<open>TypeError\<close> or
  \<open>ValueError\<close>; or, for an infinite float and nothing else, the \<open>OverflowError\<close> of
  \<open>int\<close>, which the \<open>except\<close> clause does not name.
\<close>

lemma try_parse_integer_cases:
  "(\<exists>n. py_int E x = Inr n \<and> try_parse_integer E x err_msg = Inr n) \<or>
   ((py_int E x = Inl TypeError \<or> py_int E x = Inl ValueError) \<and>
    try_parse_integer E x err_msg = Inl (DemistoException err_msg)) \<or>
   ((x = PFloat PosInf \<or> x = PFloat NegInf) \<and>
    try_parse_integer E x err_msg = Inl OverflowError)"
  using py_int_cases [of E x] by (auto simp: try_parse_integer_def)

lemma try_parse_integer_error:
  "try_parse_integer E x m = Inl e \<Longrightarrow> e = DemistoException m \<or> e = OverflowError"
  using py_int_cases [of E x] by (auto simp: try_parse_integer_def)

text \<open>
  Claim C6, evaluated where the code departs from it. An infinite float does not parse
  as an integer, and \<open>try_parse_integer\<close> lets the \<open>OverflowError\<close> of \<open>int\<close> through
  instead of raising \<open>DemistoException\<close>, whatever the message and the interpreter.
\<close>

theorem try_parse_integer_overflow_escapes:
  "try_parse_integer E (PFloat PosInf) err_msg = Inl OverflowError \<and>
   try_parse_integer E (PFloat NegInf) err_msg = Inl OverflowError \<and>
   try_parse_integer E (PFloat PosInf) err_msg \<noteq> Inl (DemistoException err_msg)"
  by (simp add: try_parse_integer_def)

section \<open>Facts about the simulated server\<close>

lemmas sim_defs =
  sim_env_def sim_build_iterator_def sim_parse_date_range_def sim_client_all_def
  sim_client_col1_def sim_client_none_def sim_server0_def sim_indicator_def col1_def col2_def
  latest_created_def created_of_def dict_get_def later_def ind_a_def ind_b_def ind_c_def
  ind_d_def ind_e_def col1_again_def sim_client_empty_def sim_client_twice_def cursors0_def
  host1_def

lemma sim_respects_limit:
  "0 \<le> l \<Longrightarrow> build_iterator sim_env client l a = Inr (iocs, client') \<Longrightarrow>
   int (length iocs) \<le> l"
  by (auto simp: sim_env_def sim_build_iterator_def Let_def split: option.splits)

lemma sim_build_iterator_error:
  "build_iterator sim_env client l a \<noteq> Inl (DemistoException m)"
  by (auto simp: sim_env_def sim_build_iterator_def Let_def split: option.splits)

lemma sim_parse_date_range_error:
  "parse_date_range sim_env v \<noteq> Inl (DemistoException m)"
  by (simp add: sim_env_def sim_parse_date_range_def)

lemma sim_parse_one_day:
  "parse_date_range sim_env (PStr ''1 day'') =
     Inr (''2024-06-01T00:00:00Z'', ''2024-06-02T00:00:00Z'')"
  by (simp add: sim_env_def sim_parse_date_range_def)

lemma try_parse_integer_examples:
  "try_parse_integer sim_env (PStr '' -1_000 '') default_err_msg = Inr (- 1000)"
  "try_parse_integer sim_env (PStr [CHR 0xC2, CHR 0xA0, CHR ''5'']) default_err_msg = Inr 5"
  "try_parse_integer sim_env (PStr [CHR 0xD9, CHR 0xA5]) default_err_msg = Inr 5"
  "try_parse_integer sim_env (PStr ''ten'') default_err_msg =
     Inl (DemistoException default_err_msg)"
  "try_parse_integer sim_env PNone default_err_msg = Inl (DemistoException default_err_msg)"
  "try_parse_integer sim_env (PFloat NaN) default_err_msg =
     Inl (DemistoException default_err_msg)"
  "try_parse_integer sim_env (PFloat (Finite 10)) default_err_msg = Inr 10"
  "try_parse_integer sim_env (PBool True) default_err_msg = Inr 1"
  by (simp_all add: try_parse_integer_def int_defs sim_env_def)

section \<open>The limit of a fetch cycle\<close>

lemma fetch_all_within_limit:
  assumes bi: "\<And>client l a iocs client'.
      0 \<le> l \<Longrightarrow> build_iterator E client l a = Inr (iocs, client') \<Longrightarrow> int (length iocs) \<le> l"
  shows "0 \<le> fs_limit s \<Longrightarrow> fetch_all_collections E ii cs s = Inr s' \<Longrightarrow>
     int (length (fs_indicators s')) \<le> int (length (fs_indicators s)) + fs_limit s"
proof (induction cs arbitrary: s)
  case Nil
  then show ?case by simp
next
  case (Cons c cs)
  let ?client = "(fs_client s)\<lparr>collection_to_fetch := Some c\<rparr>"
  let ?aa = "case fs_last_run_ctx s (coll_id c) of Some v \<Rightarrow> v | None \<Rightarrow> ii"
  from Cons.prems(2) obtain iocs client' where
    call: "build_iterator E ?client (fs_limit s) ?aa = Inr (iocs, client')"
    by (auto simp: Let_def split: sum.splits)
  from bi [OF Cons.prems(1) call] have le: "int (length iocs) \<le> fs_limit s" .
  show ?case
  proof (cases "fs_limit s - int (length iocs) \<le> 0")
    case True
    with Cons.prems call le show ?thesis by (auto simp: Let_def)
  next
    case False
    let ?s1 = "\<lparr>fs_client = client', fs_limit = fs_limit s - int (length iocs),
                 fs_last_run_ctx = (fs_last_run_ctx s)
                   (coll_id c \<mapsto> latest_fetched_indicator_created client'),
                 fs_indicators = fs_indicators s @ iocs,
                 fs_calls = fs_calls s @ [(Some c, fs_limit s, ?aa)]\<rparr>"
    from False Cons.prems call have rec: "fetch_all_collections E ii cs ?s1 = Inr s'"
      by (simp add: Let_def)
    from False have "0 \<le> fs_limit ?s1" by simp
    from Cons.IH [OF this rec] show ?thesis by simp
  qed
qed

text \<open>
  Claim C2. In a fetch cycle with a limit \<open>L \<ge> 0\<close>, against a client whose
  \<open>build_iterator\<close> returns at most \<open>l\<close> indicators when given a limit \<open>l \<ge> 0\<close>, the
  indicators \<open>fetch_indicators_command\<close> returns, over all collections, are at most \<open>L\<close>.
\<close>

theorem fetch_total_within_limit:
  assumes bi: "\<And>client l a iocs client'.
      0 \<le> l \<Longrightarrow> build_iterator E client l a = Inr (iocs, client') \<Longrightarrow> int (length iocs) \<le> l"
    and L: "0 \<le> L"
    and run: "fetch_indicators_command E client initial_interval L last_run_ctx =
              Inr (indicators, ctx')"
  shows "int (length indicators) \<le> L"
proof -
  from run obtain s where
    s: "fetch_indicators_run E client initial_interval L last_run_ctx = Inr s" and
    ind: "indicators = fs_indicators s"
    by (auto simp: fetch_indicators_command_def split: sum.splits prod.splits)
  show ?thesis
  proof (cases "collection_to_fetch client")
    case None
    with s obtain start cs where
      "fetch_all_collections E (PStr start) cs
         \<lparr>fs_client = client, fs_limit = L, fs_last_run_ctx = last_run_ctx,
          fs_indicators = [], fs_calls = []\<rparr> = Inr s"
      by (auto simp: fetch_indicators_run_def split: sum.splits prod.splits option.splits)
    from fetch_all_within_limit [OF bi _ this] L ind show ?thesis by simp
  next
    case (Some c)
    with s obtain a client' where "build_iterator E client L a = Inr (indicators, client')"
      using ind
      by (auto simp: fetch_indicators_run_def Let_def
               split: sum.splits prod.splits option.splits)
    from bi [OF L this] show ?thesis .
  qed
qed

theorem fetch_total_within_limit_witness:
  "fetch_indicators_command sim_env sim_client_all (PStr ''1 day'') 2 cursors0 =
     Inr ([ind_a, ind_b], cursors0) \<and>
   int (length [ind_a, ind_b]) \<le> 2"
proof -
  have run: "fetch_indicators_command sim_env sim_client_all (PStr ''1 day'') 2 cursors0 =
     Inr ([ind_a, ind_b], cursors0)"
    by (simp add: fetch_indicators_command_def fetch_indicators_run_def sim_defs Let_def)
  have "int (length [ind_a, ind_b]) \<le> 2"
    by (rule fetch_total_within_limit [OF sim_respects_limit _ run]) simp_all
  with run show ?thesis by (rule conjI)
qed

section \<open>The cursor after a fetch cycle\<close>

text \<open>
  With a pinned collection the cursor written is the client's latest creation time,
  or \<open>added_after\<close> when the client reports none.
\<close>

lemma pinned_collection_cursor:
  assumes "parse_date_range E initial_interval = Inr (start, stop)"
    and "collection_to_fetch client = Some c"
    and "build_iterator E client limit (snd (cursor_or last_run_ctx (PStr start) c)) =
         Inr (indicators, client')"
    and "collection_to_fetch client' = Some c"
  shows "fetch_indicators_command E client initial_interval limit last_run_ctx =
     Inr (indicators, last_run_ctx
       (coll_id c \<mapsto>
          (if truthy (latest_fetched_indicator_created client')
           then latest_fetched_indicator_created client'
           else snd (cursor_or last_run_ctx (PStr start) c))))"
  using assms
  by (simp add: fetch_indicators_command_def fetch_indicators_run_def cursor_or_def Let_def)

text \<open>
  Fetching all collections, for any client: when the first collection uses up a limit
  \<open>limit \<ge> 0\<close>, the command returns with the cursor mapping it was given; and the
  cursor written for a collection is whatever \<open>latest_fetched_indicator_created\<close>
  holds after its fetch, with no fallback.
\<close>

lemma fetch_all_break_keeps_cursor:
  assumes "parse_date_range E initial_interval = Inr (start, stop)"
    and "collection_to_fetch client = None"
    and "collections client = Some (c # rest)"
    and "build_iterator E (client\<lparr>collection_to_fetch := Some c\<rparr>) limit
           (snd (cursor_or last_run_ctx (PStr start) c)) = Inr (iocs, client')"
    and "0 \<le> limit" and "limit \<le> int (length iocs)"
  shows "fetch_indicators_command E client initial_interval limit last_run_ctx =
           Inr (iocs, last_run_ctx)"
  using assms
  by (simp add: fetch_indicators_command_def fetch_indicators_run_def cursor_or_def Let_def)

lemma fetch_all_last_collection_cursor:
  assumes "parse_date_range E initial_interval = Inr (start, stop)"
    and "collection_to_fetch client = None"
    and "collections client = Some [c]"
    and "build_iterator E (client\<lparr>collection_to_fetch := Some c\<rparr>) limit
           (snd (cursor_or last_run_ctx (PStr start) c)) = Inr (iocs, client')"
    and "limit < 0 \<or> int (length iocs) < limit"
  shows "fetch_indicators_command E client initial_interval limit last_run_ctx =
           Inr (iocs, last_run_ctx(coll_id c \<mapsto> latest_fetched_indicator_created client'))"
  using assms
  by (auto simp add: fetch_indicators_command_def fetch_indicators_run_def cursor_or_def Let_def)

text \<open>
  Claim C1, evaluated where the code departs from it. The server holds three new
  indicators for \<open>col-1\<close>, the latest created at \<open>2024-01-02T00:00:00Z\<close>, and the cursor
  of \<open>col-1\<close> is \<open>2024-01-01T00:00:00Z\<close>.
  \<^item> Fetching all collections with limit 3 returns the three indicators and leaves the
    cursor of \<open>col-1\<close> where it was: the loop breaks before the cursor is written.
  \<^item> Fetching all collections with limit 5 advances \<open>col-1\<close>, fetches nothing from
    \<open>col-2\<close> and stores \<open>None\<close> as its cursor, not the initial interval.
  \<^item> Pinned to \<open>col-1\<close>, the same fetch with limit 3 advances the cursor.
\<close>

theorem fetch_all_cursor_left_behind:
  "fetch_indicators_command sim_env sim_client_all (PStr ''1 day'') 3 cursors0 =
     Inr ([ind_a, ind_b, ind_c], cursors0) \<and>
   latest_created [ind_a, ind_b, ind_c] = PStr ''2024-01-02T00:00:00Z'' \<and>
   cursors0 ''col-1'' = Some (PStr ''2024-01-01T00:00:00Z'') \<and>
   fetch_indicators_command sim_env sim_client_all (PStr ''1 day'') 5 cursors0 =
     Inr ([ind_a, ind_b, ind_c],
          cursors0(''col-1'' \<mapsto> PStr ''2024-01-02T00:00:00Z'', ''col-2'' \<mapsto> PNone)) \<and>
   fetch_indicators_command sim_env sim_client_col1 (PStr ''1 day'') 3 cursors0 =
     Inr ([ind_a, ind_b, ind_c], cursors0(''col-1'' \<mapsto> PStr ''2024-01-02T00:00:00Z''))"
  by (simp add: fetch_indicators_command_def fetch_indicators_run_def sim_defs Let_def)

section \<open>The bound passed to the client\<close>

lemma fetch_all_calls:
  "distinct (map coll_id cs) \<Longrightarrow>
   \<exists>n. map call_target (calls_of (fetch_all_collections E ii cs s)) =
       map call_target (fs_calls s) @ map (cursor_or (fs_last_run_ctx s) ii) (take n cs)"
proof (induction cs arbitrary: s)
  case Nil
  then show ?case by (simp add: calls_of_def)
next
  case (Cons c cs)
  let ?client = "(fs_client s)\<lparr>collection_to_fetch := Some c\<rparr>"
  let ?aa = "case fs_last_run_ctx s (coll_id c) of Some v \<Rightarrow> v | None \<Rightarrow> ii"
  let ?calls = "fs_calls s @ [(Some c, fs_limit s, ?aa)]"
  have one: "map call_target ?calls =
      map call_target (fs_calls s) @
      map (cursor_or (fs_last_run_ctx s) ii) (take (Suc 0) (c # cs))"
    by (simp add: call_target_def cursor_or_def)
  show ?case
  proof (cases "build_iterator E ?client (fs_limit s) ?aa")
    case (Inl e)
    then have "calls_of (fetch_all_collections E ii (c # cs) s) = ?calls"
      by (simp add: calls_of_def Let_def)
    with one show ?thesis by metis
  next
    case (Inr r)
    obtain iocs client' where r: "r = (iocs, client')" by (cases r)
    show ?thesis
    proof (cases "0 \<le> fs_limit s \<and> fs_limit s - int (length iocs) \<le> 0")
      case True
      with Inr r have "calls_of (fetch_all_collections E ii (c # cs) s) = ?calls"
        by (simp add: calls_of_def Let_def)
      with one show ?thesis by metis
    next
      case False
      let ?s1 = "\<lparr>fs_client = client',
                   fs_limit = (if 0 \<le> fs_limit s then fs_limit s - int (length iocs)
                               else fs_limit s),
                   fs_last_run_ctx = (fs_last_run_ctx s)
                     (coll_id c \<mapsto> latest_fetched_indicator_created client'),
                   fs_indicators = fs_indicators s @ iocs,
                   fs_calls = ?calls\<rparr>"
      from False Inr r have step:
        "fetch_all_collections E ii (c # cs) s = fetch_all_collections E ii cs ?s1"
        by (simp add: Let_def)
      from Cons.prems have d: "distinct (map coll_id cs)"
        and notin: "coll_id c \<notin> coll_id ` set cs"
        by simp_all
      from Cons.IH [OF d, of ?s1] obtain n where
        n: "map call_target (calls_of (fetch_all_collections E ii cs ?s1)) =
            map call_target (fs_calls ?s1) @
            map (cursor_or (fs_last_run_ctx ?s1) ii) (take n cs)"
        by blast
      have same: "map (cursor_or (fs_last_run_ctx ?s1) ii) (take n cs) =
                  map (cursor_or (fs_last_run_ctx s) ii) (take n cs)"
      proof (rule map_cong [OF refl])
        fix x assume "x \<in> set (take n cs)"
        then have "x \<in> set cs" by (rule in_set_takeD)
        with notin have "coll_id x \<noteq> coll_id c" by (metis imageI)
        then show "cursor_or (fs_last_run_ctx ?s1) ii x = cursor_or (fs_last_run_ctx s) ii x"
          by (simp add: cursor_or_def)
      qed
      have "map call_target (calls_of (fetch_all_collections E ii (c # cs) s)) =
            map call_target (fs_calls s) @
            map (cursor_or (fs_last_run_ctx s) ii) (take (Suc n) (c # cs))"
        using n same step by (simp add: call_target_def cursor_or_def)
      then show ?thesis by blast
    qed
  qed
qed

text \<open>
  The calls of a whole fetch cycle, returned or raised: for a prefix of the collections
  to process, in order, one call each, whose bound is the collection's entry in the
  mapping the cycle started with, or the parsed initial interval when it has none.
\<close>

lemma fetch_run_calls:
  assumes parse: "parse_date_range E initial_interval = Inr (start, stop)"
    and ids: "distinct (map coll_id (targets client))"
  shows "\<exists>n. map call_target
           (calls_of (fetch_indicators_run E client initial_interval limit last_run_ctx)) =
         map (cursor_or last_run_ctx (PStr start)) (take n (targets client))"
proof (cases "collection_to_fetch client")
  case None
  note cf = this
  show ?thesis
  proof (cases "collections client")
    case None
    with cf parse have
      "calls_of (fetch_indicators_run E client initial_interval limit last_run_ctx) = []"
      by (simp add: fetch_indicators_run_def calls_of_def)
    then show ?thesis by simp
  next
    case (Some cs)
    with cf ids have d: "distinct (map coll_id cs)" and t: "targets client = cs"
      by (simp_all add: targets_def)
    from fetch_all_calls [OF d, of E "PStr start"
        "\<lparr>fs_client = client, fs_limit = limit, fs_last_run_ctx = last_run_ctx,
          fs_indicators = [], fs_calls = []\<rparr>"]
    show ?thesis using cf Some parse t by (simp add: fetch_indicators_run_def)
  qed
next
  case (Some c)
  let ?aa = "case last_run_ctx (coll_id c) of Some v \<Rightarrow> v | None \<Rightarrow> PStr start"
  from Some parse have
    "calls_of (fetch_indicators_run E client initial_interval limit last_run_ctx) =
       [(Some c, limit, ?aa)]"
    by (simp add: fetch_indicators_run_def calls_of_def Let_def
             split: sum.splits prod.splits option.splits)
  moreover from Some have "targets client = [c]" by (simp add: targets_def)
  ultimately have
    "map call_target
       (calls_of (fetch_indicators_run E client initial_interval limit last_run_ctx)) =
     map (cursor_or last_run_ctx (PStr start)) (take 1 (targets client))"
    by (simp add: call_target_def cursor_or_def)
  then show ?thesis by blast
qed

text \<open>
  Claim C3, as the code has it. In a fetch cycle whose initial interval parses, over
  collections with distinct ids, the \<open>build_iterator\<close> calls go, in order, to a prefix
  of the collections to process, and the \<open>added_after\<close> bound of each call is that
  collection's persisted cursor when the mapping has one (whether earlier or later than
  the initial interval), and the parsed initial interval otherwise.
\<close>

theorem added_after_is_cursor_or_initial:
  assumes parse: "parse_date_range E initial_interval = Inr (start, stop)"
    and ids: "distinct (map coll_id (targets client))"
  shows "map call_target
           (calls_of (fetch_indicators_run E client initial_interval limit last_run_ctx)) =
         map (cursor_or last_run_ctx (PStr start))
           (take (length (calls_of (fetch_indicators_run E client initial_interval limit
                                      last_run_ctx)))
              (targets client))"
proof -
  let ?calls = "calls_of (fetch_indicators_run E client initial_interval limit last_run_ctx)"
  from fetch_run_calls [OF parse ids, of limit last_run_ctx] obtain n where
    n: "map call_target ?calls = map (cursor_or last_run_ctx (PStr start)) (take n (targets client))"
    by blast
  then have "length ?calls = length (take n (targets client))"
    by (metis length_map)
  then have "take (length ?calls) (targets client) = take n (targets client)"
    by (simp add: min_def take_all)
  with n show ?thesis by simp
qed

theorem added_after_is_cursor_or_initial_witness:
  "parse_date_range sim_env (PStr ''1 day'') =
     Inr (''2024-06-01T00:00:00Z'', ''2024-06-02T00:00:00Z'') \<and>
   distinct (map coll_id (targets sim_client_all)) \<and>
   calls_of (fetch_indicators_run sim_env sim_client_all (PStr ''1 day'') 5 cursors0) =
     [(Some col1, 5, PStr ''2024-01-01T00:00:00Z''),
      (Some col2, 2, PStr ''2024-06-01T00:00:00Z'')] \<and>
   map call_target
     (calls_of (fetch_indicators_run sim_env sim_client_all (PStr ''1 day'') 5 cursors0)) =
   map (cursor_or cursors0 (PStr ''2024-06-01T00:00:00Z''))
     (take (length (calls_of (fetch_indicators_run sim_env sim_client_all (PStr ''1 day'') 5
                                cursors0)))
        (targets sim_client_all))"
proof -
  have ids: "distinct (map coll_id (targets sim_client_all))"
    by (simp add: targets_def sim_defs)
  have calls:
    "calls_of (fetch_indicators_run sim_env sim_client_all (PStr ''1 day'') 5 cursors0) =
     [(Some col1, 5, PStr ''2024-01-01T00:00:00Z''),
      (Some col2, 2, PStr ''2024-06-01T00:00:00Z'')]"
    by (simp add: calls_of_def fetch_indicators_run_def sim_defs Let_def)
  note inst = added_after_is_cursor_or_initial [OF sim_parse_one_day ids, of 5 cursors0]
  show ?thesis
    by (rule conjI [OF sim_parse_one_day conjI [OF ids conjI [OF calls inst]]])
qed

text \<open>
  Claim C3 as stated fails: pinned to \<open>col-1\<close>, whose persisted cursor
  \<open>2024-01-01T00:00:00Z\<close> is earlier than the parsed initial interval
  \<open>2024-06-01T00:00:00Z\<close>, the one call made passes the cursor, which is not the later
  of the two.
\<close>

theorem added_after_later_counterexample:
  "calls_of (fetch_indicators_run sim_env sim_client_col1 (PStr ''1 day'') (- 1) cursors0) =
     [(Some col1, - 1, PStr ''2024-01-01T00:00:00Z'')] \<and>
   cursors0 ''col-1'' = Some (PStr ''2024-01-01T00:00:00Z'') \<and>
   parse_date_range sim_env (PStr ''1 day'') =
     Inr (''2024-06-01T00:00:00Z'', ''2024-06-02T00:00:00Z'') \<and>
   later ''2024-01-01T00:00:00Z'' ''2024-06-01T00:00:00Z'' = ''2024-06-01T00:00:00Z'' \<and>
   PStr ''2024-01-01T00:00:00Z'' \<noteq>
     PStr (later ''2024-01-01T00:00:00Z'' ''2024-06-01T00:00:00Z'')"
  by (simp add: calls_of_def fetch_indicators_run_def sim_defs Let_def)

section \<open>Resetting the cursors\<close>




section \<open>No collection to fetch from\<close>

lemma fetch_all_no_coll_error:
  assumes bi: "\<And>c l a. build_iterator E c l a \<noteq> Inl (DemistoException (ERR_NO_COLL E))"
  shows "fetch_all_collections E ii cs s \<noteq> Inl (DemistoException (ERR_NO_COLL E), calls)"
proof (induction cs arbitrary: s)
  case Nil
  show ?case by simp
next
  case (Cons c cs)
  show ?case
    using bi Cons.IH by (auto simp: Let_def split: sum.splits prod.splits)
qed

lemma get_all_no_coll_error:
  assumes bi: "\<And>c l a. build_iterator E c l a \<noteq> Inl (DemistoException (ERR_NO_COLL E))"
  shows "get_all_collections E aa cs client limit inds \<noteq> Inl (DemistoException (ERR_NO_COLL E))"
proof (induction cs arbitrary: client limit inds)
  case Nil
  show ?case by simp
next
  case (Cons c cs)
  show ?case
    using bi Cons.IH by (auto split: sum.splits prod.splits)
qed

lemma fetch_command_no_coll_iff:
  assumes bi: "\<And>c l a. build_iterator E c l a \<noteq> Inl (DemistoException (ERR_NO_COLL E))"
    and pdr: "\<And>v. parse_date_range E v \<noteq> Inl (DemistoException (ERR_NO_COLL E))"
  shows "fetch_indicators_command E client ii limit ctx = Inl (DemistoException (ERR_NO_COLL E)) \<longleftrightarrow>
         collection_to_fetch client = None \<and> collections client = None \<and>
         (\<exists>p. parse_date_range E ii = Inr p)"
proof (cases "parse_date_range E ii")
  case (Inl e)
  with pdr [of ii] show ?thesis
    by (auto simp: fetch_indicators_command_def fetch_indicators_run_def)
next
  case (Inr p)
  obtain start stop where p: "p = (start, stop)" by (cases p)
  show ?thesis
  proof (cases "collection_to_fetch client")
    case None
    note cf = this
    show ?thesis
    proof (cases "collections client")
      case None
      with cf Inr p show ?thesis
        by (simp add: fetch_indicators_command_def fetch_indicators_run_def)
    next
      case (Some cs)
      with cf Inr p fetch_all_no_coll_error [OF bi] show ?thesis
        by (auto simp: fetch_indicators_command_def fetch_indicators_run_def
                 split: sum.splits prod.splits)
    qed
  next
    case (Some c)
    with Inr p bi show ?thesis
      by (auto simp: fetch_indicators_command_def fetch_indicators_run_def Let_def
               split: sum.splits prod.splits option.splits)
  qed
qed

lemma fetched_no_coll_iff:
  assumes bi: "\<And>c l a. build_iterator E c l a \<noteq> Inl (DemistoException (ERR_NO_COLL E))"
  shows "get_indicators_fetched E client n a = Inl (DemistoException (ERR_NO_COLL E)) \<longleftrightarrow>
         collection_to_fetch client = None \<and> collections client = None"
  using bi get_all_no_coll_error [OF bi]
  by (auto simp: get_indicators_fetched_def split: sum.splits prod.splits option.splits)

lemma get_command_no_coll_iff:
  assumes bi: "\<And>c l a. build_iterator E c l a \<noteq> Inl (DemistoException (ERR_NO_COLL E))"
    and pdr: "\<And>v. parse_date_range E v \<noteq> Inl (DemistoException (ERR_NO_COLL E))"
    and msg: "ERR_NO_COLL E \<noteq> default_err_msg"
  shows "get_indicators_command E client raw limit aa d = Inl (DemistoException (ERR_NO_COLL E)) \<longleftrightarrow>
         collection_to_fetch client = None \<and> collections client = None \<and>
         (\<exists>n. try_parse_integer E limit default_err_msg = Inr n) \<and>
         (\<exists>a. parse_added_after E aa = Inr a)"
proof (cases "try_parse_integer E limit default_err_msg")
  case (Inl e)
  with try_parse_integer_error [OF Inl] msg show ?thesis
    by (auto simp: get_indicators_command_def)
next
  case (Inr n)
  note n = this
  show ?thesis
  proof (cases "parse_added_after E aa")
    case (Inl e)
    with pdr have "e \<noteq> DemistoException (ERR_NO_COLL E)"
      by (auto simp: parse_added_after_def split: if_splits sum.splits prod.splits)
    with Inl n show ?thesis by (auto simp: get_indicators_command_def)
  next
    case (Inr a)
    with n fetched_no_coll_iff [OF bi, of client n a] show ?thesis
      by (auto simp: get_indicators_command_def Let_def split: sum.splits)
  qed
qed

text \<open>An empty list of collections is iterated, and the command returns normally.\<close>

lemma empty_collections_return:
  assumes "parse_date_range E initial_interval = Inr (start, stop)"
    and "collection_to_fetch client = None"
    and "collections client = Some []"
  shows "fetch_indicators_command E client initial_interval limit last_run_ctx =
           Inr ([], last_run_ctx)"
  using assms by (simp add: fetch_indicators_command_def fetch_indicators_run_def)

lemma no_coll_fetch_never_returns:
  assumes "collection_to_fetch client = None" "collections client = None"
  shows "fetch_indicators_command E client ii limit ctx \<noteq> Inr r"
  using assms
  by (auto simp: fetch_indicators_command_def fetch_indicators_run_def
           split: sum.splits prod.splits)

lemma no_coll_get_never_returns:
  assumes "collection_to_fetch client = None" "collections client = None"
  shows "get_indicators_command E client raw l aa d \<noteq> Inr r"
  using assms
  by (auto simp: get_indicators_command_def get_indicators_fetched_def
           split: sum.splits prod.splits)

text \<open>
  Claim C4, as the code has it. Take a client that does not itself raise the
  no-collection error. Then \<open>fetch_indicators_command\<close> raises
  \<open>DemistoException(ERR_NO_COLL)\<close> exactly when no collection is pinned,
  \<open>client.collections\<close> is \<open>None\<close> and the initial interval has parsed;
  \<open>get_indicators_command\<close> raises it exactly when no collection is pinned,
  \<open>client.collections\<close> is \<open>None\<close> and its limit and \<open>added_after\<close> have parsed. With
  no collection pinned and \<open>client.collections\<close> being \<open>None\<close>, neither command returns
  normally; in every other state of the client, an empty list of collections among
  them, neither raises this error.
\<close>

theorem no_collections_error:
  assumes bi: "\<And>c l a. build_iterator E c l a \<noteq> Inl (DemistoException (ERR_NO_COLL E))"
    and pdr: "\<And>v. parse_date_range E v \<noteq> Inl (DemistoException (ERR_NO_COLL E))"
    and msg: "ERR_NO_COLL E \<noteq> default_err_msg"
  shows "(fetch_indicators_command E client initial_interval limit last_run_ctx =
            Inl (DemistoException (ERR_NO_COLL E)) \<longleftrightarrow>
          collection_to_fetch client = None \<and> collections client = None \<and>
          (\<exists>p. parse_date_range E initial_interval = Inr p)) \<and>
         (get_indicators_command E client raw limit' added_after d =
            Inl (DemistoException (ERR_NO_COLL E)) \<longleftrightarrow>
          collection_to_fetch client = None \<and> collections client = None \<and>
          (\<exists>n. try_parse_integer E limit' default_err_msg = Inr n) \<and>
          (\<exists>a. parse_added_after E added_after = Inr a)) \<and>
         (collection_to_fetch client = None \<and> collections client = None \<longrightarrow>
          (\<forall>r. fetch_indicators_command E client initial_interval limit last_run_ctx \<noteq> Inr r) \<and>
          (\<forall>r. get_indicators_command E client raw limit' added_after d \<noteq> Inr r))"
proof (intro conjI impI allI)
  show "fetch_indicators_command E client initial_interval limit last_run_ctx =
            Inl (DemistoException (ERR_NO_COLL E)) \<longleftrightarrow>
          collection_to_fetch client = None \<and> collections client = None \<and>
          (\<exists>p. parse_date_range E initial_interval = Inr p)"
    by (rule fetch_command_no_coll_iff [OF bi pdr])
  show "get_indicators_command E client raw limit' added_after d =
            Inl (DemistoException (ERR_NO_COLL E)) \<longleftrightarrow>
          collection_to_fetch client = None \<and> collections client = None \<and>
          (\<exists>n. try_parse_integer E limit' default_err_msg = Inr n) \<and>
          (\<exists>a. parse_added_after E added_after = Inr a)"
    by (rule get_command_no_coll_iff [OF bi pdr msg])
next
  fix r
  assume "collection_to_fetch client = None \<and> collections client = None"
  then show "fetch_indicators_command E client initial_interval limit last_run_ctx \<noteq> Inr r"
    by (simp add: no_coll_fetch_never_returns)
next
  fix r
  assume "collection_to_fetch client = None \<and> collections client = None"
  then show "get_indicators_command E client raw limit' added_after d \<noteq> Inr r"
    by (simp add: no_coll_get_never_returns)
qed

theorem no_collections_error_witness:
  "fetch_indicators_command sim_env sim_client_none (PStr ''1 day'') 5 cursors0 =
     Inl (DemistoException (ERR_NO_COLL sim_env)) \<and>
   get_indicators_command sim_env sim_client_none (PStr ''false'') (PInt 10) PNone host1 =
     Inl (DemistoException (ERR_NO_COLL sim_env)) \<and>
   fetch_indicators_command sim_env sim_client_all (PStr ''1 day'') 5 cursors0 \<noteq>
     Inl (DemistoException (ERR_NO_COLL sim_env)) \<and>
   get_indicators_command sim_env sim_client_col1 (PStr ''false'') (PInt 10) PNone host1 \<noteq>
     Inl (DemistoException (ERR_NO_COLL sim_env))"
proof -
  have msg: "ERR_NO_COLL sim_env \<noteq> default_err_msg"
    by (simp add: sim_env_def default_err_msg_def)
  note inst = no_collections_error [OF sim_build_iterator_error sim_parse_date_range_error msg]
  note none = inst [of sim_client_none "PStr ''1 day''" 5 cursors0 "PStr ''false''" "PInt 10" PNone host1]
  have a: "fetch_indicators_command sim_env sim_client_none (PStr ''1 day'') 5 cursors0 =
     Inl (DemistoException (ERR_NO_COLL sim_env))"
    by (rule iffD2 [OF conjunct1 [OF none]]) (simp add: sim_client_none_def sim_parse_one_day)
  have b: "get_indicators_command sim_env sim_client_none (PStr ''false'') (PInt 10) PNone host1 =
     Inl (DemistoException (ERR_NO_COLL sim_env))"
    by (rule iffD2 [OF conjunct1 [OF conjunct2 [OF none]]])
       (simp add: sim_client_none_def try_parse_integer_def parse_added_after_def)
  note all = inst [of sim_client_all "PStr ''1 day''" 5 cursors0 "PStr ''false''" "PInt 10" PNone host1]
  have c: "fetch_indicators_command sim_env sim_client_all (PStr ''1 day'') 5 cursors0 \<noteq>
     Inl (DemistoException (ERR_NO_COLL sim_env))"
    unfolding conjunct1 [OF all] by (simp add: sim_client_all_def)
  note pinned = inst [of sim_client_col1 "PStr ''1 day''" 5 cursors0 "PStr ''false''" "PInt 10" PNone host1]
  have d: "get_indicators_command sim_env sim_client_col1 (PStr ''false'') (PInt 10) PNone host1 \<noteq>
     Inl (DemistoException (ERR_NO_COLL sim_env))"
    unfolding conjunct1 [OF conjunct2 [OF pinned]] by (simp add: sim_client_col1_def)
  show ?thesis by (rule conjI [OF a conjI [OF b conjI [OF c d]]])
qed

text \<open>
  Claim C4 as stated fails. With no collection pinned and an empty list of collections,
  none can be resolved, yet both commands return normally, with no indicator. And with
  \<open>client.collections\<close> being \<open>None\<close>, an initial interval that does not parse makes
  \<open>fetch_indicators_command\<close> raise the error of \<open>parse_date_range\<close>, which comes first,
  not the no-collection error.
\<close>

theorem no_collections_error_counterexample:
  "collection_to_fetch sim_client_empty = None \<and>
   collections sim_client_empty = Some [] \<and>
   fetch_indicators_command sim_env sim_client_empty (PStr ''1 day'') 5 cursors0 =
     Inr ([], cursors0) \<and>
   get_indicators_command sim_env sim_client_empty (PStr ''false'') (PInt 10) PNone host1 =
     Inr (RetStr ''Found 0 results:\<newline>|valuetype|'', host1) \<and>
   fetch_indicators_command sim_env sim_client_none (PStr ''soon'') 5 cursors0 =
     Inl (OtherException ''invalid date range'')"
  by (simp add: fetch_indicators_command_def fetch_indicators_run_def
        get_indicators_command_def get_indicators_fetched_def parse_added_after_def
        try_parse_integer_def str_nat.simps CONTEXT_PREFIX_def sim_defs Let_def)

section \<open>The listing command\<close>

lemma str_nat_0: "str_nat 0 = ''0''"
  by (simp add: str_nat.simps)

lemma sim_fetched_all:
  "get_indicators_fetched sim_env sim_client_all 10 PNone = Inr [ind_a, ind_b, ind_c, ind_d]"
  by (simp add: get_indicators_fetched_def sim_defs Let_def)

lemma sim_fetched_none:
  "get_indicators_fetched sim_env sim_client_all 10 (PStr ''2024-06-01T00:00:00Z'') = Inr []"
  by (simp add: get_indicators_fetched_def sim_defs Let_def)

lemma parse_limit_10: "try_parse_integer E (PInt 10) default_err_msg = Inr 10"
  by (simp add: try_parse_integer_def)

lemma sim_added_after_none: "parse_added_after sim_env PNone = Inr PNone"
  by (simp add: parse_added_after_def)

lemma sim_added_after_one_day:
  "parse_added_after sim_env (PStr ''1 day'') = Inr (PStr ''2024-06-01T00:00:00Z'')"
  by (simp add: parse_added_after_def sim_parse_one_day)

text \<open>
  Claim C7. In raw-output mode (\<open>raw\<close> is the string \<open>true\<close>), once the limit and
  \<open>added_after\<close> have parsed and the indicators are fetched, \<open>get_indicators_command\<close>
  returns \<open>None\<close> and sends the host one entry: a dictionary with the single key
  \<open>indicators\<close>, whose value lists, for each fetched indicator in order, its \<open>rawJSON\<close>
  field and nothing else.
\<close>

theorem raw_output_is_rawJSON_only:
  assumes "try_parse_integer E limit default_err_msg = Inr n"
    and "parse_added_after E added_after = Inr a"
    and "get_indicators_fetched E client n a = Inr indicators"
  shows "get_indicators_command E client (PStr ''true'') limit added_after d =
     Inr (RetNone,
          d\<lparr>entries := entries d @
             [Results (PDict [(''indicators'',
                PList (map (\<lambda>x. dict_get x ''rawJSON'') indicators))])]\<rparr>)"
  using assms by (simp add: get_indicators_command_def)

theorem raw_output_is_rawJSON_only_witness:
  "get_indicators_command sim_env sim_client_all (PStr ''true'') (PInt 10) PNone host1 =
     Inr (RetNone,
          host1\<lparr>entries := entries host1 @
             [Results (PDict [(''indicators'',
                PList (map (\<lambda>x. dict_get x ''rawJSON'') [ind_a, ind_b, ind_c, ind_d]))])]\<rparr>)"
  by (rule raw_output_is_rawJSON_only [OF parse_limit_10 sim_added_after_none sim_fetched_all])

text \<open>
  Claim C9. Once the limit and \<open>added_after\<close> have parsed and the indicators are
  fetched, \<open>get_indicators_command\<close> returns, and it takes the raw-output path (returns
  \<open>None\<close>, having sent the host the entry of the \<open>rawJSON\<close> fields) if and only if \<open>raw\<close>
  is exactly the string \<open>true\<close>; for any other value it sends nothing and returns the
  readable string or the \<open>CommandResults\<close>.
\<close>

theorem raw_mode_iff_true_string:
  assumes "try_parse_integer E limit default_err_msg = Inr n"
    and "parse_added_after E added_after = Inr a"
    and "get_indicators_fetched E client n a = Inr indicators"
  shows "\<exists>r d'. get_indicators_command E client raw limit added_after d = Inr (r, d') \<and>
           (r = RetNone \<longleftrightarrow> raw = PStr ''true'') \<and>
           (entries d' = entries d @
              [Results (PDict [(''indicators'',
                 PList (map (\<lambda>x. dict_get x ''rawJSON'') indicators))])] \<longleftrightarrow>
            raw = PStr ''true'') \<and>
           (entries d' = entries d \<longleftrightarrow> raw \<noteq> PStr ''true'') \<and>
           ((\<exists>md. r = RetStr md) \<or> (\<exists>cr. r = RetCommandResults cr) \<longleftrightarrow>
            raw \<noteq> PStr ''true'')"
proof (cases "raw = PStr ''true''")
  case True
  with assms show ?thesis by (simp add: get_indicators_command_def)
next
  case False
  with assms show ?thesis by (cases "indicators = []") (simp_all add: get_indicators_command_def Let_def)
qed

theorem raw_mode_iff_true_string_witness:
  "get_indicators_command sim_env sim_client_all (PStr ''true'') (PInt 10) PNone host1 =
     Inr (RetNone,
          host1\<lparr>entries := entries host1 @
             [Results (PDict [(''indicators'',
                PList (map (\<lambda>x. dict_get x ''rawJSON'') [ind_a, ind_b, ind_c, ind_d]))])]\<rparr>) \<and>
   get_indicators_command sim_env sim_client_all (PStr ''TRUE'') (PInt 10) (PStr ''1 day'') host1 =
     Inr (RetStr ''Found 0 results:\<newline>|valuetype|'', host1) \<and>
   (\<exists>r d'. get_indicators_command sim_env sim_client_all (PStr ''true'') (PInt 10) PNone host1 =
       Inr (r, d') \<and>
     (r = RetNone \<longleftrightarrow> PStr ''true'' = PStr ''true'') \<and>
     (entries d' = entries host1 @
        [Results (PDict [(''indicators'',
           PList (map (\<lambda>x. dict_get x ''rawJSON'') [ind_a, ind_b, ind_c, ind_d]))])] \<longleftrightarrow>
      PStr ''true'' = PStr ''true'') \<and>
     (entries d' = entries host1 \<longleftrightarrow> PStr ''true'' \<noteq> PStr ''true'') \<and>
     ((\<exists>md. r = RetStr md) \<or> (\<exists>cr. r = RetCommandResults cr) \<longleftrightarrow>
      PStr ''true'' \<noteq> PStr ''true'')) \<and>
   (\<exists>r d'. get_indicators_command sim_env sim_client_all (PBool True) (PInt 10) PNone host1 =
       Inr (r, d') \<and>
     (r = RetNone \<longleftrightarrow> PBool True = PStr ''true'') \<and>
     (entries d' = entries host1 @
        [Results (PDict [(''indicators'',
           PList (map (\<lambda>x. dict_get x ''rawJSON'') [ind_a, ind_b, ind_c, ind_d]))])] \<longleftrightarrow>
      PBool True = PStr ''true'') \<and>
     (entries d' = entries host1 \<longleftrightarrow> PBool True \<noteq> PStr ''true'') \<and>
     ((\<exists>md. r = RetStr md) \<or> (\<exists>cr. r = RetCommandResults cr) \<longleftrightarrow>
      PBool True \<noteq> PStr ''true''))"
proof -
  have raw_run:
    "get_indicators_command sim_env sim_client_all (PStr ''true'') (PInt 10) PNone host1 =
     Inr (RetNone,
          host1\<lparr>entries := entries host1 @
             [Results (PDict [(''indicators'',
                PList (map (\<lambda>x. dict_get x ''rawJSON'') [ind_a, ind_b, ind_c, ind_d]))])]\<rparr>)"
    by (simp add: get_indicators_command_def parse_limit_10 sim_added_after_none sim_fetched_all)
  have shaped_run:
    "get_indicators_command sim_env sim_client_all (PStr ''TRUE'') (PInt 10) (PStr ''1 day'') host1 =
     Inr (RetStr ''Found 0 results:\<newline>|valuetype|'', host1)"
    unfolding get_indicators_command_def parse_limit_10 sim_added_after_one_day
    by (simp add: sim_fetched_none str_nat_0) (simp add: sim_env_def)
  note at_true = raw_mode_iff_true_string
    [OF parse_limit_10 sim_added_after_none sim_fetched_all, of "PStr ''true''" host1]
  note at_bool = raw_mode_iff_true_string
    [OF parse_limit_10 sim_added_after_none sim_fetched_all, of "PBool True" host1]
  show ?thesis
    by (rule conjI [OF raw_run conjI [OF shaped_run conjI [OF at_true at_bool]]])
qed

text \<open>
  Claim C10. Outside raw-output mode, with the arguments parsed and the indicators
  fetched: when no indicator was fetched the command returns only the readable string,
  \<open>Found 0 results:\<close> and a newline followed by the table of the empty list; otherwise it
  returns a \<open>CommandResults\<close> with prefix \<open>TAXII2.Indicators\<close>, key field \<open>value\<close>, the
  fetched indicators as outputs and the readable string. The host is left as it was.
\<close>

theorem shaped_output:
  assumes "try_parse_integer E limit default_err_msg = Inr n"
    and "parse_added_after E added_after = Inr a"
    and "get_indicators_fetched E client n a = Inr indicators"
    and "raw \<noteq> PStr ''true''"
  shows "get_indicators_command E client raw limit added_after d =
     Inr (if indicators = []
          then RetStr (''Found 0 results:\<newline>'' @ tableToMarkdown E '''' [] [''value'', ''type''])
          else RetCommandResults
                 \<lparr>outputs_prefix = ''TAXII2.Indicators'',
                  outputs_key_field = ''value'',
                  outputs = indicators,
                  readable_output =
                    ''Found '' @ str_nat (length indicators) @ '' results:\<newline>'' @
                    tableToMarkdown E '''' indicators [''value'', ''type'']\<rparr>,
          d)"
  using assms by (simp add: get_indicators_command_def Let_def CONTEXT_PREFIX_def str_nat_0)

theorem shaped_output_witness:
  "get_indicators_command sim_env sim_client_all (PStr ''false'') (PInt 10) (PStr ''1 day'') host1 =
     Inr (RetStr ''Found 0 results:\<newline>|valuetype|'', host1) \<and>
   get_indicators_command sim_env sim_client_all (PBool True) (PInt 10) PNone host1 =
     Inr (RetCommandResults
            \<lparr>outputs_prefix = ''TAXII2.Indicators'',
             outputs_key_field = ''value'',
             outputs = [ind_a, ind_b, ind_c, ind_d],
             readable_output = ''Found 4 results:\<newline>|valuetype|''\<rparr>, host1)"
proof -
  have a: "get_indicators_command sim_env sim_client_all (PStr ''false'') (PInt 10) (PStr ''1 day'')
       host1 = Inr (RetStr ''Found 0 results:\<newline>|valuetype|'', host1)"
    unfolding shaped_output [OF parse_limit_10 sim_added_after_one_day sim_fetched_none,
        of "PStr ''false''" host1, simplified]
    by (simp add: sim_env_def)
  have b: "get_indicators_command sim_env sim_client_all (PBool True) (PInt 10) PNone host1 =
     Inr (RetCommandResults
            \<lparr>outputs_prefix = ''TAXII2.Indicators'',
             outputs_key_field = ''value'',
             outputs = [ind_a, ind_b, ind_c, ind_d],
             readable_output = ''Found 4 results:\<newline>|valuetype|''\<rparr>, host1)"
    unfolding shaped_output [OF parse_limit_10 sim_added_after_none sim_fetched_all,
        of "PBool True" host1, simplified]
    by (simp add: sim_env_def str_nat.simps)
  from a b show ?thesis by (rule conjI)
qed

text \<open>
  Claim C8. \<open>get_indicators_command\<close> leaves the integration context as it found it, and
  what it returns and sends does not depend on the integration context; run through
  \<open>main\<close>, every command other than \<open>fetch-indicators\<close> and
  \<open>taxii2-reset-fetch-indicators\<close> leaves the integration context unchanged.
\<close>

theorem listing_keeps_integration_context:
  "(\<forall>r d'. get_indicators_command E client raw limit added_after d = Inr (r, d') \<longrightarrow>
       integration_context d' = integration_context d) \<and>
   get_indicators_command E client raw limit added_after (d\<lparr>integration_context := ctx\<rparr>) =
     map_sum id (\<lambda>(r, d'). (r, d'\<lparr>integration_context := ctx\<rparr>))
       (get_indicators_command E client raw limit added_after d) \<and>
   (command \<noteq> ''fetch-indicators'' \<and> command \<noteq> ''taxii2-reset-fetch-indicators'' \<longrightarrow>
      integration_context (main E client params args command d) = integration_context d)"
proof (intro conjI allI impI)
  fix r d'
  assume "get_indicators_command E client raw limit added_after d = Inr (r, d')"
  then show "integration_context d' = integration_context d"
    by (auto simp: get_indicators_command_def Let_def split: sum.splits if_splits)
next
  show "get_indicators_command E client raw limit added_after (d\<lparr>integration_context := ctx\<rparr>) =
     map_sum id (\<lambda>(r, d'). (r, d'\<lparr>integration_context := ctx\<rparr>))
       (get_indicators_command E client raw limit added_after d)"
    by (simp add: get_indicators_command_def Let_def split: sum.splits)
next
  assume "command \<noteq> ''fetch-indicators'' \<and> command \<noteq> ''taxii2-reset-fetch-indicators''"
  then show "integration_context (main E client params args command d) = integration_context d"
    by (auto simp: main_def main_try_def module_test_command_def return_results_def
          get_indicators_command_def Let_def split: sum.splits if_splits prod.splits)
qed

theorem listing_keeps_integration_context_witness:
  "get_indicators_command sim_env sim_client_all (PStr ''true'') (PInt 10) PNone host1 =
     Inr (RetNone,
          host1\<lparr>entries := entries host1 @
             [Results (PDict [(''indicators'',
                PList (map (\<lambda>x. dict_get x ''rawJSON'') [ind_a, ind_b, ind_c, ind_d]))])]\<rparr>) \<and>
   integration_context
     (host1\<lparr>entries := entries host1 @
        [Results (PDict [(''indicators'',
           PList (map (\<lambda>x. dict_get x ''rawJSON'') [ind_a, ind_b, ind_c, ind_d]))])]\<rparr>) =
     integration_context host1 \<and>
   integration_context
     (main sim_env sim_client_all [] [(''raw'', PStr ''true'')] ''taxii2-get-indicators'' host1) =
     integration_context host1"
proof -
  note inst = listing_keeps_integration_context
    [of sim_env sim_client_all "PStr ''true''" "PInt 10" PNone host1 cursors0
        "''taxii2-get-indicators''" "[]" "[(''raw'', PStr ''true'')]"]
  have run: "get_indicators_command sim_env sim_client_all (PStr ''true'') (PInt 10) PNone host1 =
     Inr (RetNone,
          host1\<lparr>entries := entries host1 @
             [Results (PDict [(''indicators'',
                PList (map (\<lambda>x. dict_get x ''rawJSON'') [ind_a, ind_b, ind_c, ind_d]))])]\<rparr>)"
    by (simp add: get_indicators_command_def parse_limit_10 sim_added_after_none sim_fetched_all)
  have kept: "integration_context
     (host1\<lparr>entries := entries host1 @
        [Results (PDict [(''indicators'',
           PList (map (\<lambda>x. dict_get x ''rawJSON'') [ind_a, ind_b, ind_c, ind_d]))])]\<rparr>) =
     integration_context host1"
    by (rule conjunct1 [OF inst, rule_format, OF run])
  have through_main: "integration_context
     (main sim_env sim_client_all [] [(''raw'', PStr ''true'')] ''taxii2-get-indicators'' host1) =
     integration_context host1"
    by (rule conjunct2 [OF conjunct2 [OF inst], rule_format]) simp
  show ?thesis by (rule conjI [OF run conjI [OF kept through_main]])
qed

end
